theory Spec2Isabelle
  imports Main "HOL-Library.Sublist"
begin

section \<open>Strings\<close>

text \<open>
  A Python \<open>str\<close> is modelled as a \<open>string\<close>; a \<open>char\<close> stands for a code point
  below 256. The character tables below are the ones of Python 3 on that range.
\<close>

definition sep :: char where
  "sep = CHR ''/''"

definition code :: "char \<Rightarrow> nat" where
  "code c = of_char c"

text \<open>\<open>str.lower\<close> on one character.\<close>

definition lower_chr :: "char \<Rightarrow> char" where
  "lower_chr c =
     (if (65 \<le> code c \<and> code c \<le> 90) \<or> (192 \<le> code c \<and> code c \<le> 222 \<and> code c \<noteq> 215)
      then char_of (code c + 32) else c)"

definition lower :: "string \<Rightarrow> string" where
  "lower s = map lower_chr s"

text \<open>\<open>str.isspace\<close> on one character; it is also the class \<open>\<^verbatim>\<open>\s\<close>\<close> of \<open>re\<close>.\<close>

definition isspace :: "char \<Rightarrow> bool" where
  "isspace c = ((9 \<le> code c \<and> code c \<le> 13) \<or> (28 \<le> code c \<and> code c \<le> 32)
      \<or> code c = 133 \<or> code c = 160)"

text \<open>The class \<open>\<^verbatim>\<open>\w\<close>\<close> of \<open>re\<close> on a \<open>str\<close> pattern.\<close>

definition isword :: "char \<Rightarrow> bool" where
  "isword c = ((48 \<le> code c \<and> code c \<le> 57) \<or> (65 \<le> code c \<and> code c \<le> 90) \<or> code c = 95
      \<or> (97 \<le> code c \<and> code c \<le> 122)
      \<or> code c = 170 \<or> code c = 178 \<or> code c = 179 \<or> code c = 181 \<or> code c = 185
      \<or> code c = 186 \<or> code c = 188 \<or> code c = 189 \<or> code c = 190
      \<or> (192 \<le> code c \<and> code c \<le> 214) \<or> (216 \<le> code c \<and> code c \<le> 246)
      \<or> 248 \<le> code c)"

text \<open>\<open>str.strip()\<close>, \<open>str.startswith\<close>, \<open>str.endswith\<close>, \<open>x in s\<close>.\<close>

definition strip :: "string \<Rightarrow> string" where
  "strip s = rev (dropWhile isspace (rev (dropWhile isspace s)))"

definition startswith :: "string \<Rightarrow> string \<Rightarrow> bool" where
  "startswith s p = prefix p s"

definition endswith :: "string \<Rightarrow> string \<Rightarrow> bool" where
  "endswith s p = suffix p s"

definition contains :: "string \<Rightarrow> string \<Rightarrow> bool" where
  "contains s x = sublist x s"

text \<open>\<open>s.split(os.sep)\<close>: the pieces between separators, empty pieces kept.\<close>

fun split_sep :: "string \<Rightarrow> string list" where
  "split_sep [] = [[]]"
| "split_sep (c # cs) =
     (if c = sep then [] # split_sep cs
      else (c # hd (split_sep cs)) # tl (split_sep cs))"

text \<open>\<open>sep.join(comps)\<close>.\<close>

fun sep_join :: "string list \<Rightarrow> string" where
  "sep_join [] = []"
| "sep_join [c] = c"
| "sep_join (c # cs) = c @ sep # sep_join cs"

section \<open>\<open>posixpath\<close>\<close>

definition isabs :: "string \<Rightarrow> bool" where
  "isabs p = startswith p [sep]"

text \<open>\<open>os.path.join(a, b)\<close>; with more arguments Python folds from the left.\<close>

definition join :: "string \<Rightarrow> string \<Rightarrow> string" where
  "join a b =
     (if startswith b [sep] then b
      else if a = [] \<or> endswith a [sep] then a @ b
      else a @ sep # b)"

definition join3 :: "string \<Rightarrow> string \<Rightarrow> string \<Rightarrow> string" where
  "join3 a b c = join (join a b) c"

text \<open>\<open>os.path.basename\<close>: what follows the last separator.\<close>

definition basename :: "string \<Rightarrow> string" where
  "basename p = rev (takeWhile (\<lambda>c. c \<noteq> sep) (rev p))"

text \<open>
  \<open>os.path.dirname\<close>: what precedes the basename, without its trailing separators unless
  it consists of separators only.
\<close>

definition dirname :: "string \<Rightarrow> string" where
  "dirname p =
     (let head = rev (dropWhile (\<lambda>c. c \<noteq> sep) (rev p))
      in if head \<noteq> [] \<and> head \<noteq> replicate (length head) sep
         then rev (dropWhile (\<lambda>c. c = sep) (rev head)) else head)"

text \<open>
  \<open>os.path.splitext\<close>: the extension starts at the last dot of the basename, provided some
  character of the basename before that dot is not a dot; otherwise the extension is empty.
\<close>

definition splitext :: "string \<Rightarrow> string \<times> string" where
  "splitext p =
     (let name = basename p;
          tail = rev (takeWhile (\<lambda>c. c \<noteq> CHR ''.'') (rev name));
          stem = take (length name - length tail - 1) name
      in if CHR ''.'' \<in> set name \<and> list_ex (\<lambda>c. c \<noteq> CHR ''.'') stem
         then (take (length p - length tail - 1) p, CHR ''.'' # tail)
         else (p, []))"

text \<open>\<open>os.path.normpath\<close>, with the loop over the components as a fold.\<close>

definition norm_step :: "bool \<Rightarrow> string list \<Rightarrow> string \<Rightarrow> string list" where
  "norm_step initial_slashes new_comps cmp =
     (if cmp = [] \<or> cmp = ''.'' then new_comps
      else if cmp \<noteq> ''..'' \<or> (\<not> initial_slashes \<and> new_comps = [])
              \<or> (new_comps \<noteq> [] \<and> last new_comps = ''..'')
      then new_comps @ [cmp]
      else if new_comps \<noteq> [] then butlast new_comps
      else new_comps)"

definition normpath :: "string \<Rightarrow> string" where
  "normpath path =
     (if path = [] then ''.''
      else
        let initial_slashes =
              (if startswith path [sep]
               then (if startswith path [sep, sep] \<and> \<not> startswith path [sep, sep, sep]
                     then 2 else 1)
               else (0::nat));
            comps = foldl (norm_step (initial_slashes \<noteq> 0)) [] (split_sep path);
            path' = replicate initial_slashes sep @ sep_join comps
        in if path' = [] then ''.'' else path')"

text \<open>\<open>os.path.abspath\<close>, with the working directory \<open>cwd\<close> of the process.\<close>

definition abspath :: "string \<Rightarrow> string \<Rightarrow> string" where
  "abspath cwd path = normpath (if isabs path then path else join cwd path)"

text \<open>
  \<open>os.path.relpath(path, start)\<close>; it raises \<open>ValueError\<close> on an empty path, which is
  \<open>None\<close> here.
\<close>

fun common_prefix :: "string list \<Rightarrow> string list \<Rightarrow> nat" where
  "common_prefix (x # xs) (y # ys) = (if x = y then Suc (common_prefix xs ys) else 0)"
| "common_prefix _ _ = 0"

definition relpath :: "string \<Rightarrow> string \<Rightarrow> string \<Rightarrow> string option" where
  "relpath cwd path start =
     (if path = [] then None
      else
        let start_list = filter (\<lambda>x. x \<noteq> []) (split_sep (abspath cwd start));
            path_list = filter (\<lambda>x. x \<noteq> []) (split_sep (abspath cwd path));
            i = common_prefix start_list path_list;
            rel_list = replicate (length start_list - i) ''..'' @ drop i path_list
        in if rel_list = [] then Some ''.''
           else Some (foldl join (hd rel_list) (tl rel_list)))"

section \<open>The regular expressions of \<open>re\<close>\<close>

text \<open>
  The fragment of Python's regular expressions the organizer uses. \<open>Lit\<close> is a literal
  character, \<open>Dot\<close> is \<open>\<^verbatim>\<open>.\<close>\<close>, \<open>WordCh\<close> is \<open>\<^verbatim>\<open>\w\<close>\<close>, \<open>SpaceCh\<close> is \<open>\<^verbatim>\<open>\s\<close>\<close>,
  \<open>WordB\<close> is \<open>\<^verbatim>\<open>\b\<close>\<close>, \<open>Eol\<close> is \<open>\<^verbatim>\<open>$\<close>\<close> (without \<open>re.MULTILINE\<close>).
\<close>

datatype regex =
    Eps | Lit char | Dot | WordCh | SpaceCh | WordB | Eol
  | Seq regex regex | Alt regex regex | Opt regex | Star regex | Plus regex

text \<open>
  A position in the subject string: the character before it, if any, and the rest of the
  string from it.
\<close>

type_synonym cursor = "char option \<times> string"

definition advance :: "(char \<Rightarrow> bool) \<Rightarrow> cursor \<Rightarrow> cursor list" where
  "advance ok c = (case snd c of [] \<Rightarrow> [] | y # ys \<Rightarrow> if ok y then [(Some y, ys)] else [])"

definition word_before :: "cursor \<Rightarrow> bool" where
  "word_before c = (case fst c of None \<Rightarrow> False | Some x \<Rightarrow> isword x)"

definition word_after :: "cursor \<Rightarrow> bool" where
  "word_after c = (case snd c of [] \<Rightarrow> False | y # ys \<Rightarrow> isword y)"

text \<open>
  The positions reachable by repeating a step any number of times. A repetition that
  consumes nothing reaches nothing new, so the rest of the string bounds the number of
  repetitions.
\<close>

primrec star_from :: "(cursor \<Rightarrow> cursor list) \<Rightarrow> nat \<Rightarrow> cursor \<Rightarrow> cursor list" where
  "star_from f 0 c = [c]"
| "star_from f (Suc n) c =
     c # concat (map (star_from f n) (filter (\<lambda>c'. length (snd c') < length (snd c)) (f c)))"

text \<open>
  \<open>ends r ic c\<close>: every position at which a match of \<open>r\<close> that starts at \<open>c\<close> can end;
  \<open>ic\<close> is the flag \<open>re.IGNORECASE\<close>. Only whether a match exists is observed by the
  organizer, so the order among the alternatives does not matter.
\<close>

primrec ends :: "regex \<Rightarrow> bool \<Rightarrow> cursor \<Rightarrow> cursor list" where
  "ends Eps ic c = [c]"
| "ends (Lit x) ic c = advance (\<lambda>y. if ic then lower_chr y = lower_chr x else y = x) c"
| "ends Dot ic c = advance (\<lambda>y. y \<noteq> CHR 0x0A) c"
| "ends WordCh ic c = advance isword c"
| "ends SpaceCh ic c = advance isspace c"
| "ends WordB ic c = (if word_before c = word_after c then [] else [c])"
| "ends Eol ic c = (if snd c = [] \<or> snd c = [CHR 0x0A] then [c] else [])"
| "ends (Seq r s) ic c = concat (map (ends s ic) (ends r ic c))"
| "ends (Alt r s) ic c = ends r ic c @ ends s ic c"
| "ends (Opt r) ic c = ends r ic c @ [c]"
| "ends (Star r) ic c = star_from (ends r ic) (length (snd c)) c"
| "ends (Plus r) ic c =
     concat (map (\<lambda>c'. star_from (ends r ic) (length (snd c')) c') (ends r ic c))"

text \<open>\<open>re.search(r, s, flags)\<close> as a truth value: a match starts at some position.\<close>

fun search_at :: "regex \<Rightarrow> bool \<Rightarrow> char option \<Rightarrow> string \<Rightarrow> bool" where
  "search_at r ic p [] = (ends r ic (p, []) \<noteq> [])"
| "search_at r ic p (y # ys) = (ends r ic (p, y # ys) \<noteq> [] \<or> search_at r ic (Some y) ys)"

definition re_search :: "regex \<Rightarrow> bool \<Rightarrow> string \<Rightarrow> bool" where
  "re_search r ic s = search_at r ic None s"

text \<open>A run of literal characters, and a sequence of expressions.\<close>

definition lits :: "string \<Rightarrow> regex" where
  "lits s = foldr (\<lambda>c r. Seq (Lit c) r) s Eps"

definition seqs :: "regex list \<Rightarrow> regex" where
  "seqs rs = foldr Seq rs Eps"

definition alts :: "regex \<Rightarrow> regex list \<Rightarrow> regex" where
  "alts r rs = foldl Alt r rs"

section \<open>The classifiers of \<open>FileOrganizer\<close> that read a name only\<close>

text \<open>The patterns of \<open>is_config_file\<close>, in the order of the source.\<close>

definition config_patterns :: "regex list" where
  "config_patterns =
     [seqs [lits ''.config'', Opt (Seq (Lit CHR ''.'') (Plus WordCh)), Eol],
      seqs [lits ''.conf'', Eol],
      seqs [lits ''.ini'', Eol],
      seqs [lits ''.env'', Opt (Seq (Lit CHR ''.'') (Plus WordCh)), Eol],
      seqs [lits ''config.'', Plus WordCh, Eol],
      seqs [lits ''.y'', Opt (Lit CHR ''a''), lits ''ml'', Eol],
      seqs [lits ''.toml'', Eol],
      seqs [lits ''settings.'', Plus WordCh, Eol]]"

definition is_config_file :: "string \<Rightarrow> bool" where
  "is_config_file filename = list_ex (\<lambda>pattern. re_search pattern True filename) config_patterns"

definition get_config_type :: "string \<Rightarrow> string" where
  "get_config_type filename =
     (if re_search (seqs [lits ''.y'', Opt (Lit CHR ''a''), lits ''ml'', Eol]) True filename
      then ''YAML''
      else if re_search (seqs [lits ''.toml'', Eol]) True filename then ''TOML''
      else if re_search (seqs [lits ''.json'', Eol]) True filename then ''JSON''
      else if re_search (lits ''.env'') True filename then ''Environment''
      else if re_search (seqs [lits ''.ini'', Eol]) True filename then ''INI''
      else ''General'')"

section \<open>The file system and the platform\<close>

text \<open>
  A regular file: its bytes (hashed by \<open>get_file_hash\<close>, counted by \<open>os.path.getsize\<close>),
  the text that \<open>open(path, 'r', encoding='utf-8')\<close> delivers (\<open>None\<close> when decoding
  raises \<open>UnicodeDecodeError\<close>), whether opening it succeeds, and whether the operating
  system lets it be renamed. Symbolic links are not modelled.
\<close>

record regfile =
  fbytes :: string
  ftext :: "string option"
  readable :: bool
  movable :: bool

datatype node = Dir | File regfile

text \<open>
  The file system maps the components of an absolute normalised path to a node; the root
  directory, with no component, always exists. The list order is the order of enumeration.
\<close>

type_synonym filesys = "(string list \<times> node) list"

text \<open>What the interpreter supplies: the working directory and the MD5 digest.\<close>

record platform =
  getcwd :: string
  md5 :: "string \<Rightarrow> string"

datatype error = OSError | UnicodeDecodeError | ValueError | ShutilError | TypeError

definition resolve :: "platform \<Rightarrow> string \<Rightarrow> string list" where
  "resolve plat path = filter (\<lambda>x. x \<noteq> []) (split_sep (abspath (getcwd plat) path))"

definition lookup :: "filesys \<Rightarrow> string list \<Rightarrow> node option" where
  "lookup fs k = (if k = [] then Some Dir else map_of fs k)"

definition put :: "string list \<Rightarrow> node \<Rightarrow> filesys \<Rightarrow> filesys" where
  "put k n fs = (k, n) # filter (\<lambda>e. fst e \<noteq> k) fs"

definition remove :: "string list \<Rightarrow> filesys \<Rightarrow> filesys" where
  "remove k fs = filter (\<lambda>e. fst e \<noteq> k) fs"

text \<open>A name a directory entry can have.\<close>

definition valid_name :: "string \<Rightarrow> bool" where
  "valid_name n = (n \<noteq> [] \<and> n \<noteq> ''.'' \<and> n \<noteq> ''..'' \<and> sep \<notin> set n)"

text \<open>
  One step of \<open>os.walk\<close>: the names of the subdirectories and of the other entries of a
  directory, or \<open>None\<close> when \<open>os.scandir\<close> raises \<open>OSError\<close>.
\<close>

definition scandir :: "filesys \<Rightarrow> string list \<Rightarrow> (string list \<times> string list) option" where
  "scandir fs k =
     (if lookup fs k = Some Dir
      then
        let entries = filter (\<lambda>e. fst e \<noteq> [] \<and> butlast (fst e) = k \<and> valid_name (last (fst e))) fs
        in Some (map (\<lambda>e. last (fst e)) (filter (\<lambda>e. snd e = Dir) entries),
                 map (\<lambda>e. last (fst e)) (filter (\<lambda>e. snd e \<noteq> Dir) entries))
      else None)"

text \<open>\<open>os.path.getsize\<close>; the size of a directory is whatever the file system reports.\<close>

definition getsize :: "platform \<Rightarrow> filesys \<Rightarrow> string \<Rightarrow> error + nat" where
  "getsize plat fs path =
     (case lookup fs (resolve plat path) of
        None \<Rightarrow> Inl OSError
      | Some Dir \<Rightarrow> Inr 0
      | Some (File f) \<Rightarrow> Inr (length (fbytes f)))"

text \<open>Opening a file as UTF-8 text and reading it.\<close>

definition open_text :: "platform \<Rightarrow> filesys \<Rightarrow> string \<Rightarrow> error + string" where
  "open_text plat fs path =
     (case lookup fs (resolve plat path) of
        Some (File f) \<Rightarrow>
          if readable f
          then (case ftext f of None \<Rightarrow> Inl UnicodeDecodeError | Some t \<Rightarrow> Inr t)
          else Inl OSError
      | _ \<Rightarrow> Inl OSError)"

definition readline :: "string \<Rightarrow> string" where
  "readline t =
     takeWhile (\<lambda>c. c \<noteq> CHR 0x0A) t @ (if CHR 0x0A \<in> set t then [CHR 0x0A] else [])"

text \<open>
  \<open>os.makedirs(path, exist_ok=True)\<close>: the missing directories along the path are
  created; a component that is a regular file makes it raise.
\<close>

fun mkdirs :: "filesys \<Rightarrow> string list \<Rightarrow> string list \<Rightarrow> filesys \<times> error option" where
  "mkdirs fs pre [] = (fs, None)"
| "mkdirs fs pre (c # cs) =
     (case lookup fs (pre @ [c]) of
        Some Dir \<Rightarrow> mkdirs fs (pre @ [c]) cs
      | Some (File f) \<Rightarrow> (fs, Some OSError)
      | None \<Rightarrow> mkdirs (put (pre @ [c]) Dir fs) (pre @ [c]) cs)"

definition makedirs :: "platform \<Rightarrow> filesys \<Rightarrow> string \<Rightarrow> filesys \<times> error option" where
  "makedirs plat fs path =
     (if path = [] then (fs, Some OSError) else mkdirs fs [] (resolve plat path))"

text \<open>
  \<open>shutil.move(src, dst)\<close> for a regular file \<open>src\<close>: into \<open>dst\<close> when \<open>dst\<close> is a
  directory (an error when the name is taken there), onto \<open>dst\<close> otherwise, replacing a
  file that is there. The directory of the destination must exist.
\<close>

definition rstrip_sep :: "string \<Rightarrow> string" where
  "rstrip_sep s = rev (dropWhile (\<lambda>c. c = sep) (rev s))"

definition shutil_move :: "platform \<Rightarrow> filesys \<Rightarrow> string \<Rightarrow> string \<Rightarrow> error + filesys" where
  "shutil_move plat fs src dst =
     (let s = resolve plat src;
          d = resolve plat dst;
          real_dst = (if lookup fs d = Some Dir then d @ [basename (rstrip_sep src)] else d)
      in if lookup fs d = Some Dir \<and> lookup fs real_dst \<noteq> None then Inl ShutilError
         else
           case lookup fs s of
             Some (File f) \<Rightarrow>
               if movable f \<and> real_dst \<noteq> [] \<and> lookup fs (butlast real_dst) = Some Dir
               then Inr (put real_dst (File f) (remove s fs))
               else Inl OSError
           | _ \<Rightarrow> Inl OSError)"

section \<open>\<open>FileOrganizer\<close>: configuration and state\<close>

definition DEFAULT_MAPPINGS :: "(string \<times> string) list" where
  "DEFAULT_MAPPINGS =
     [(''html'', ''Web/HTML''), (''htm'', ''Web/HTML''), (''css'', ''Web/CSS''),
      (''scss'', ''Web/CSS''), (''sass'', ''Web/CSS''), (''less'', ''Web/CSS''),
      (''js'', ''Web/JavaScript''), (''jsx'', ''Web/React''), (''ts'', ''Web/TypeScript''),
      (''tsx'', ''Web/React''), (''php'', ''Web/PHP''),
      (''py'', ''Python''), (''java'', ''Java''), (''c'', ''C''), (''cpp'', ''C++''),
      (''cs'', ''CSharp''), (''go'', ''Go''), (''rs'', ''Rust''), (''rb'', ''Ruby''),
      (''swift'', ''Swift''), (''kt'', ''Kotlin''),
      (''json'', ''Data/JSON''), (''xml'', ''Data/XML''), (''yaml'', ''Data/YAML''),
      (''yml'', ''Data/YAML''), (''csv'', ''Data/CSV''), (''xls'', ''Data/Excel''),
      (''xlsx'', ''Data/Excel''),
      (''md'', ''Documentation/Markdown''), (''txt'', ''Documentation/Text''),
      (''pdf'', ''Documentation/PDF''), (''docx'', ''Documentation/Word''),
      (''doc'', ''Documentation/Word''),
      (''ini'', ''Config''), (''cfg'', ''Config''), (''conf'', ''Config''),
      (''env'', ''Config''), (''toml'', ''Config''),
      (''jpg'', ''Media/Images''), (''jpeg'', ''Media/Images''), (''png'', ''Media/Images''),
      (''gif'', ''Media/Images''), (''svg'', ''Media/Images''), (''webp'', ''Media/Images''),
      (''sh'', ''Scripts/Shell''), (''bash'', ''Scripts/Shell''), (''bat'', ''Scripts/Batch''),
      (''ps1'', ''Scripts/PowerShell''), (''sql'', ''Database/SQL'')]"

text \<open>The attributes that \<open>__init__\<close> sets and no method changes.\<close>

record config =
  source_dir :: string
  target_dir :: string
  mappings :: "(string \<times> string) list"
  project_mode :: bool
  exclude_dirs :: "string list"
  exclude_files :: "string list"
  dry_run :: bool

text \<open>
  \<open>self.stats\<close>: the key \<open>duplicate_files\<close> is absent until the first duplicate is
  counted. The keys written by \<open>detect_project_structure\<close> and the execution time are
  left out.
\<close>

record stats =
  total_files :: nat
  organized_files :: nat
  skipped_files :: nat
  unknown_extensions :: "string set"
  duplicate_files :: "nat option"

text \<open>The records that reach the log at the default level \<open>INFO\<close>.\<close>

datatype log_event =
    Info_moved string string
  | Info_would_move string string
  | Error_moving string
  | Error_hashing string
  | Info_report_skipped
  | Info_report_generated string

text \<open>
  What a run changes: the file system, \<open>self.stats\<close>, \<open>self.duplicate_files\<close> and the
  log.
\<close>

record organizer =
  disk :: filesys
  stats :: stats
  self_duplicate_files :: "(string \<times> string list) list"
  logged :: "log_event list"

definition init_stats :: stats where
  "init_stats = \<lparr>total_files = 0, organized_files = 0, skipped_files = 0,
     unknown_extensions = {}, duplicate_files = None\<rparr>"

definition FileOrganizer ::
  "platform \<Rightarrow> string \<Rightarrow> string option \<Rightarrow> (string \<times> string) list option \<Rightarrow> bool
     \<Rightarrow> string list option \<Rightarrow> string list option \<Rightarrow> bool \<Rightarrow> config" where
  "FileOrganizer plat source target maps pm ex_dirs ex_files dry =
     (let src = abspath (getcwd plat) source
      in \<lparr>source_dir = src,
          target_dir = (case target of None \<Rightarrow> src
                        | Some t \<Rightarrow> if t = [] then src else abspath (getcwd plat) t),
          mappings = (case maps of None \<Rightarrow> DEFAULT_MAPPINGS
                      | Some m \<Rightarrow> if m = [] then DEFAULT_MAPPINGS else m),
          project_mode = pm,
          exclude_dirs = (case ex_dirs of None \<Rightarrow>
                            [''.git'', ''.vscode'', ''node_modules'', ''venv'', ''env'', ''__pycache__'']
                          | Some ds \<Rightarrow> if ds = [] then
                            [''.git'', ''.vscode'', ''node_modules'', ''venv'', ''env'', ''__pycache__'']
                            else ds),
          exclude_files = (case ex_files of None \<Rightarrow>
                             [''file_organizer.py'', ''file_organizer_config.json'']
                           | Some fs \<Rightarrow> if fs = [] then
                             [''file_organizer.py'', ''file_organizer_config.json'']
                             else fs),
          dry_run = dry\<rparr>)"

definition new_organizer :: "filesys \<Rightarrow> organizer" where
  "new_organizer fs = \<lparr>disk = fs, stats = init_stats, self_duplicate_files = [], logged = []\<rparr>"

section \<open>\<open>FileOrganizer\<close>: classification\<close>

definition should_exclude :: "config \<Rightarrow> string \<Rightarrow> bool" where
  "should_exclude cfg path =
     (if basename path \<in> set (exclude_files cfg) then True
      else list_ex (\<lambda>excluded_dir. excluded_dir \<in> set (split_sep path)) (exclude_dirs cfg))"

text \<open>
  The directory of a file relative to the source root, as both classifiers compute it in
  project mode; \<open>None\<close> is the \<open>ValueError\<close> of \<open>os.path.relpath\<close>.
\<close>

definition rel_path_of :: "platform \<Rightarrow> config \<Rightarrow> string \<Rightarrow> string option" where
  "rel_path_of plat cfg file_path =
     (case relpath (getcwd plat) (dirname file_path) (source_dir cfg) of
        None \<Rightarrow> None
      | Some rel_path \<Rightarrow> Some (if rel_path = ''.'' then [] else rel_path))"

text \<open>
  \<open>get_target_path\<close> returns the destination, if any, and the statistics, in which it
  may have recorded an unknown extension.
\<close>

definition get_target_path ::
  "platform \<Rightarrow> config \<Rightarrow> string \<Rightarrow> stats \<Rightarrow> error + (string option \<times> stats)" where
  "get_target_path plat cfg file_path st =
     (let ext0 = snd (splitext file_path);
          ext = (if ext0 \<noteq> [] then lower (tl ext0) else [])
      in if ext = [] then Inr (None, st)
         else
           case map_of (mappings cfg) ext of
             Some category \<Rightarrow>
               if project_mode cfg
               then (case rel_path_of plat cfg file_path of
                       None \<Rightarrow> Inl ValueError
                     | Some rel_path \<Rightarrow>
                         Inr (Some (join (join3 (target_dir cfg) rel_path category)
                                      (basename file_path)), st))
               else Inr (Some (join (join (target_dir cfg) category) (basename file_path)), st)
           | None \<Rightarrow>
               Inr (None, st\<lparr>unknown_extensions := insert ext (unknown_extensions st)\<rparr>))"

text \<open>The shebang pass of \<open>detect_file_type_from_content\<close>, on the stripped first line.\<close>

definition shebang_type :: "string \<Rightarrow> string option" where
  "shebang_type first_line =
     (if startswith first_line ''#!''
      then
        if contains first_line ''python'' then Some ''Python/Scripts''
        else if contains first_line ''node'' then Some ''Web/JavaScript/Scripts''
        else if list_ex (\<lambda>shell. contains first_line shell) [''bash'', ''sh'', ''zsh'']
        then Some ''Scripts/Shell''
        else if contains first_line ''ruby'' then Some ''Ruby/Scripts''
        else if contains first_line ''perl'' then Some ''Perl/Scripts''
        else None
      else None)"

text \<open>The patterns of the signature pass.\<close>

definition html_re :: regex where
  "html_re = Alt (seqs [lits ''<!DOCTYPE'', Plus SpaceCh, lits ''html>''])
                 (seqs [lits ''<html'', WordB])"

definition css_re :: regex where
  "css_re = alts (seqs [lits ''@import'', Plus SpaceCh, lits ''url''])
                 [seqs [lits ''@media'', WordB],
                  seqs [WordB, lits ''body'', Star SpaceCh, Lit CHR ''{'']]"

definition js_re :: regex where
  "js_re = alts (seqs [lits ''import'', Plus SpaceCh, Star Dot, WordB, lits ''from'', WordB])
                [seqs [WordB, lits ''export'', WordB, Star Dot, WordB, lits ''class'', WordB],
                 seqs [WordB, lits ''function'', WordB]]"

definition sql_re :: regex where
  "sql_re = alts (seqs [lits ''SELECT'', Plus SpaceCh, Star Dot, WordB, lits ''FROM'', WordB])
                 [seqs [lits ''CREATE'', Plus SpaceCh, lits ''TABLE''],
                  seqs [lits ''INSERT'', Plus SpaceCh, lits ''INTO'']]"

definition signature_type :: "string \<Rightarrow> string option" where
  "signature_type content =
     (if re_search html_re True content then Some ''Web/HTML''
      else if re_search css_re False content then Some ''Web/CSS''
      else if re_search js_re False content
      then
        if contains content ''React'' \<or> contains content ''jsx'' then Some ''Web/React''
        else if contains content ''interface '' \<or> contains content '': string''
        then Some ''Web/TypeScript''
        else Some ''Web/JavaScript''
      else if re_search sql_re True content then Some ''Database/SQL''
      else None)"

text \<open>
  \<open>detect_file_type_from_content\<close>. An \<open>OSError\<close> of the first \<open>open\<close> is not caught
  there and leaves the function; the second \<open>try\<close> catches both exceptions.
\<close>

definition detect_file_type_from_content ::
  "platform \<Rightarrow> filesys \<Rightarrow> string \<Rightarrow> error + string option" where
  "detect_file_type_from_content plat fs file_path =
     (let ext = lower (snd (splitext file_path));
          script =
            (if ext \<in> set [''.py'', ''.js'', ''.sh'', ''.bash'', ''.pl'', ''.rb'']
             then (case open_text plat fs file_path of
                     Inr t \<Rightarrow> Inr (shebang_type (strip (readline t)))
                   | Inl e \<Rightarrow> if e = UnicodeDecodeError then Inr None else Inl e)
             else Inr None)
      in case script of
           Inl e \<Rightarrow> Inl e
         | Inr (Some file_type) \<Rightarrow> Inr (Some file_type)
         | Inr None \<Rightarrow>
             (case open_text plat fs file_path of
                Inr t \<Rightarrow> Inr (signature_type (take 4096 t))
              | Inl e \<Rightarrow> Inr None))"

text \<open>
  \<open>smart_categorize_file\<close>. The exceptions it lets through are the \<open>OSError\<close> of
  \<open>os.path.getsize\<close> and the \<open>ValueError\<close> of \<open>os.path.relpath\<close>.
\<close>

definition smart_categorize_file ::
  "platform \<Rightarrow> config \<Rightarrow> filesys \<Rightarrow> string \<Rightarrow> error + string option" where
  "smart_categorize_file plat cfg fs file_path =
     (let filename = basename file_path
      in if is_config_file filename
         then Inr (Some (join (join3 (target_dir cfg) ''Config'' (get_config_type filename))
                           filename))
         else
           case getsize plat fs file_path of
             Inl e \<Rightarrow> Inl e
           | Inr file_size \<Rightarrow>
               if file_size < 500 * 1024
               then
                 (case detect_file_type_from_content plat fs file_path of
                    Inl e \<Rightarrow> Inr None
                  | Inr None \<Rightarrow> Inr None
                  | Inr (Some file_type) \<Rightarrow>
                      if project_mode cfg
                      then (case rel_path_of plat cfg file_path of
                              None \<Rightarrow> Inl ValueError
                            | Some rel_path \<Rightarrow>
                                Inr (Some (join (join3 (target_dir cfg) rel_path file_type)
                                             filename)))
                      else Inr (Some (join (join (target_dir cfg) file_type) filename)))
               else Inr None)"

section \<open>\<open>FileOrganizer\<close>: duplicate detection\<close>

definition get_file_hash :: "platform \<Rightarrow> filesys \<Rightarrow> string \<Rightarrow> error + string" where
  "get_file_hash plat fs file_path =
     (case lookup fs (resolve plat file_path) of
        Some (File f) \<Rightarrow> if readable f then Inr (md5 plat (fbytes f)) else Inl OSError
      | _ \<Rightarrow> Inl OSError)"

text \<open>
  The file paths that \<open>os.walk(top)\<close> yields when the loop body leaves the tree alone,
  directory by directory, top-down. The first argument bounds the depth of the descent;
  \<open>None\<close> means that the bound was reached.
\<close>

fun concat_options :: "'a list option list \<Rightarrow> 'a list option" where
  "concat_options [] = Some []"
| "concat_options (None # xs) = None"
| "concat_options (Some x # xs) =
     (case concat_options xs of None \<Rightarrow> None | Some ys \<Rightarrow> Some (x @ ys))"

primrec walk_files :: "nat \<Rightarrow> platform \<Rightarrow> filesys \<Rightarrow> string \<Rightarrow> string list option" where
  "walk_files 0 plat fs top_dir = None"
| "walk_files (Suc n) plat fs top_dir =
     (case scandir fs (resolve plat top_dir) of
        None \<Rightarrow> Some []
      | Some (dirs, files) \<Rightarrow>
          (case concat_options (map (\<lambda>d. walk_files n plat fs (join top_dir d)) dirs) of
             None \<Rightarrow> None
           | Some below \<Rightarrow> Some (map (join top_dir) files @ below)))"

text \<open>\<open>duplicate_map[file_hash].append(file_path)\<close> on a \<open>defaultdict(list)\<close>.\<close>

definition dict_append ::
  "(string \<times> string list) list \<Rightarrow> string \<Rightarrow> string \<Rightarrow> (string \<times> string list) list" where
  "dict_append m k v =
     (if map_of m k = None then m @ [(k, [v])]
      else map (\<lambda>e. if fst e = k then (fst e, snd e @ [v]) else e) m)"

text \<open>The body of the loop of \<open>find_duplicate_files\<close> for one file path.\<close>

definition hash_one ::
  "platform \<Rightarrow> config \<Rightarrow> filesys \<Rightarrow> (string \<times> string list) list \<times> log_event list \<Rightarrow> string
     \<Rightarrow> (string \<times> string list) list \<times> log_event list" where
  "hash_one plat cfg fs acc file_path =
     (if \<not> should_exclude cfg file_path
      then (case get_file_hash plat fs file_path of
              Inr file_hash \<Rightarrow> (dict_append (fst acc) file_hash file_path, snd acc)
            | Inl e \<Rightarrow> (fst acc, snd acc @ [Error_hashing file_path]))
      else acc)"

definition find_duplicate_files ::
  "nat \<Rightarrow> platform \<Rightarrow> config \<Rightarrow> filesys
     \<Rightarrow> ((string \<times> string list) list \<times> log_event list) option" where
  "find_duplicate_files fuel plat cfg fs =
     (case walk_files fuel plat fs (source_dir cfg) of
        None \<Rightarrow> None
      | Some paths \<Rightarrow>
          let (duplicate_map, records) = foldl (hash_one plat cfg fs) ([], []) paths
          in Some (filter (\<lambda>e. length (snd e) > 1) duplicate_map, records))"

section \<open>\<open>FileOrganizer\<close>: the walk\<close>

definition skip :: "organizer \<Rightarrow> organizer" where
  "skip s = s\<lparr>stats := (stats s)\<lparr>skipped_files := skipped_files (stats s) + 1\<rparr>\<rparr>"

definition count_duplicate :: "organizer \<Rightarrow> organizer" where
  "count_duplicate s =
     s\<lparr>stats := (stats s)\<lparr>duplicate_files :=
          Some ((case duplicate_files (stats s) of None \<Rightarrow> 0 | Some n \<Rightarrow> n) + 1)\<rparr>\<rparr>"

text \<open>Python's truth value of an optional string: \<open>None\<close> and the empty string are false.\<close>

definition truthy :: "string option \<Rightarrow> bool" where
  "truthy x = (case x of None \<Rightarrow> False | Some v \<Rightarrow> v \<noteq> [])"

text \<open>
  The last part of the loop body, from \<open>os.makedirs\<close> on: the destination directory is
  created, then the file is moved, or the move is only reported in a dry run.
\<close>

definition move_file :: "platform \<Rightarrow> config \<Rightarrow> string \<Rightarrow> string \<Rightarrow> organizer
     \<Rightarrow> (error \<times> organizer) + organizer" where
  "move_file plat cfg file_path target_path s =
     (case makedirs plat (disk s) (dirname target_path) of
        (fs1, Some e) \<Rightarrow> Inl (e, s\<lparr>disk := fs1\<rparr>)
      | (fs1, None) \<Rightarrow>
          if \<not> dry_run cfg
          then (case shutil_move plat fs1 file_path target_path of
                  Inr fs2 \<Rightarrow>
                    Inr (s\<lparr>disk := fs2,
                           stats := (stats s)\<lparr>organized_files := organized_files (stats s) + 1\<rparr>,
                           logged := logged s @ [Info_moved file_path target_path]\<rparr>)
                | Inl e \<Rightarrow>
                    Inr (s\<lparr>disk := fs1,
                           stats := (stats s)\<lparr>skipped_files := skipped_files (stats s) + 1\<rparr>,
                           logged := logged s @ [Error_moving file_path]\<rparr>))
          else Inr (s\<lparr>disk := fs1,
                      stats := (stats s)\<lparr>organized_files := organized_files (stats s) + 1\<rparr>,
                      logged := logged s @ [Info_would_move file_path target_path]\<rparr>))"

text \<open>
  The test \<open>file_hash and file_hash in self.duplicate_files and
  len(self.duplicate_files[file_hash]) > 1\<close>.
\<close>

definition is_duplicate :: "(string \<times> string list) list \<Rightarrow> string option \<Rightarrow> bool" where
  "is_duplicate dups file_hash =
     (case file_hash of
        None \<Rightarrow> False
      | Some h \<Rightarrow>
          if h = [] then False
          else (case map_of dups h of None \<Rightarrow> False | Some paths \<Rightarrow> length paths > 1))"

text \<open>
  The classification inside the loop body: \<open>smart_categorize_file\<close>, then
  \<open>get_target_path\<close> when it gave nothing.
\<close>

definition classify :: "platform \<Rightarrow> config \<Rightarrow> string \<Rightarrow> organizer
     \<Rightarrow> error + (string option \<times> stats)" where
  "classify plat cfg file_path s =
     (case smart_categorize_file plat cfg (disk s) file_path of
        Inl e \<Rightarrow> Inl e
      | Inr target_path \<Rightarrow>
          if truthy target_path then Inr (target_path, stats s)
          else get_target_path plat cfg file_path (stats s))"

text \<open>
  The body of the inner loop of \<open>organize_files\<close> for one name of a directory listing.
  \<open>Inl\<close> is an exception that leaves \<open>organize_files\<close>, with the state at that moment.
\<close>

definition process_file :: "platform \<Rightarrow> config \<Rightarrow> string \<Rightarrow> string \<Rightarrow> organizer
     \<Rightarrow> (error \<times> organizer) + organizer" where
  "process_file plat cfg root name s0 =
     (let s1 = s0\<lparr>stats := (stats s0)\<lparr>total_files := total_files (stats s0) + 1\<rparr>\<rparr>;
          file_path = join root name
      in if should_exclude cfg file_path then Inr (skip s1)
         else
           case (if \<not> dry_run cfg
                 then (case get_file_hash plat (disk s1) file_path of
                         Inl e \<Rightarrow> Inl e | Inr h \<Rightarrow> Inr (Some h))
                 else Inr None) of
             Inl e \<Rightarrow> Inl (e, s1)
           | Inr file_hash \<Rightarrow>
               let s2 = (if is_duplicate (self_duplicate_files s1) file_hash
                         then count_duplicate s1 else s1)
               in (case classify plat cfg file_path s2 of
                     Inl e \<Rightarrow> Inl (e, s2)
                   | Inr (None, st) \<Rightarrow> Inr (skip (s2\<lparr>stats := st\<rparr>))
                   | Inr (Some target_path, st) \<Rightarrow>
                       (let s3 = s2\<lparr>stats := st\<rparr>
                        in if target_path = [] then Inr (skip s3)
                           else if normpath file_path = normpath target_path
                           then Inr (skip s3)
                           else move_file plat cfg file_path target_path s3)))"

text \<open>The inner loop over the names of one listing; it stops at the first exception.\<close>

fun process_files :: "platform \<Rightarrow> config \<Rightarrow> string \<Rightarrow> string list \<Rightarrow> organizer
     \<Rightarrow> (error \<times> organizer) + organizer" where
  "process_files plat cfg root [] s = Inr s"
| "process_files plat cfg root (name # names) s =
     (case process_file plat cfg root name s of
        Inl x \<Rightarrow> Inl x
      | Inr s' \<Rightarrow> process_files plat cfg root names s')"

text \<open>
  The outer loop: \<open>os.walk(top, topdown=True)\<close> lists a directory, the body prunes the
  excluded subdirectories and processes the files, and the walk then descends into the
  remaining subdirectories, listing each one when it reaches it. The first argument bounds
  the depth of the descent; \<open>None\<close> means that the bound was reached.
\<close>

fun each_dir :: "(string \<Rightarrow> organizer \<Rightarrow> ((error \<times> organizer) + organizer) option)
     \<Rightarrow> string list \<Rightarrow> organizer \<Rightarrow> ((error \<times> organizer) + organizer) option" where
  "each_dir f [] s = Some (Inr s)"
| "each_dir f (d # ds) s =
     (case f d s of
        None \<Rightarrow> None
      | Some (Inl x) \<Rightarrow> Some (Inl x)
      | Some (Inr s') \<Rightarrow> each_dir f ds s')"

primrec walk :: "nat \<Rightarrow> platform \<Rightarrow> config \<Rightarrow> string \<Rightarrow> organizer
     \<Rightarrow> ((error \<times> organizer) + organizer) option" where
  "walk 0 plat cfg top_dir s = None"
| "walk (Suc n) plat cfg top_dir s =
     (case scandir (disk s) (resolve plat top_dir) of
        None \<Rightarrow> Some (Inr s)
      | Some (dirs, files) \<Rightarrow>
          let dirs' = filter (\<lambda>d. \<not> should_exclude cfg (join top_dir d)) dirs
          in (case process_files plat cfg top_dir files s of
                Inl x \<Rightarrow> Some (Inl x)
              | Inr s' \<Rightarrow> each_dir (walk n plat cfg) (map (join top_dir) dirs') s'))"

text \<open>
  \<open>organize_files\<close>: the duplicate scan unless the run is a dry run, then the walk.
  \<open>detect_project_structure\<close> only reads the tree and writes keys of the statistics that
  are not modelled.
\<close>

definition organize_files :: "nat \<Rightarrow> platform \<Rightarrow> config \<Rightarrow> organizer
     \<Rightarrow> ((error \<times> organizer) + organizer) option" where
  "organize_files fuel plat cfg s =
     (case (if \<not> dry_run cfg then find_duplicate_files fuel plat cfg (disk s)
            else Some ([], [])) of
        None \<Rightarrow> None
      | Some (dups, records) \<Rightarrow>
          walk fuel plat cfg (source_dir cfg)
            (s\<lparr>self_duplicate_files := dups, logged := logged s @ records\<rparr>))"

text \<open>
  \<open>generate_report\<close>. In a dry run it returns at once. Otherwise it opens the report
  file for writing and \<open>json.dump\<close> writes into it until it reaches the set of unknown
  extensions, which it cannot serialise; \<open>written\<close> is what it has written by then.
\<close>

definition generate_report :: "platform \<Rightarrow> config \<Rightarrow> string \<Rightarrow> string \<Rightarrow> organizer
     \<Rightarrow> (error \<times> organizer) + organizer" where
  "generate_report plat cfg report_file written s =
     (if dry_run cfg then Inr (s\<lparr>logged := logged s @ [Info_report_skipped]\<rparr>)
      else
        let report_path = join (target_dir cfg) report_file;
            k = resolve plat report_path
        in if k \<noteq> [] \<and> lookup (disk s) (butlast k) = Some Dir \<and> lookup (disk s) k \<noteq> Some Dir
           then Inl (TypeError,
                  s\<lparr>disk := put k (File \<lparr>fbytes = written, ftext = Some written,
                                         readable = True, movable = True\<rparr>) (disk s)\<rparr>)
           else Inl (OSError, s))"

section \<open>Example inputs\<close>

text \<open>
  A platform whose digest is a stand-in for MD5, a readable text file, and the
  configurations of the command line \<open>file_organizer.py /s\<close> with and without
  \<open>--project-mode\<close> and \<open>--dry-run\<close>.
\<close>

definition example_platform :: platform where
  "example_platform = \<lparr>getcwd = ''/home'', md5 = (\<lambda>b. ''md5:'' @ b)\<rparr>"

definition text_file :: "string \<Rightarrow> node" where
  "text_file t = File \<lparr>fbytes = t, ftext = Some t, readable = True, movable = True\<rparr>"

definition example_config :: "bool \<Rightarrow> bool \<Rightarrow> config" where
  "example_config pm dry = FileOrganizer example_platform ''/s'' None None pm None None dry"

text \<open>A project with a script-like configuration module below \<open>src\<close>.\<close>

definition config_tree :: filesys where
  "config_tree =
     [([''s''], Dir), ([''s'', ''src''], Dir),
      ([''s'', ''src'', ''config.js''], text_file ''import React from react'')]"

section \<open>Facts about paths\<close>

lemma join_eq_Nil: "join a b = [] \<longleftrightarrow> a = [] \<and> b = []"
  by (auto simp: join_def startswith_def)

lemma basename_no_sep: "sep \<notin> set (basename p)"
  by (auto simp: basename_def dest: set_takeWhileD)

lemma join_plain:
  assumes "a \<noteq> []" "\<not> endswith a [sep]" "\<not> startswith b [sep]"
  shows "join a b = a @ sep # b"
  using assms by (simp add: join_def)

lemma not_startswith_sep: "sep \<notin> set b \<Longrightarrow> \<not> startswith b [sep]"
  by (cases b) (auto simp: startswith_def)

lemma endswith_snoc: "endswith (a @ [c]) [d] \<longleftrightarrow> c = d"
  by (auto simp: endswith_def)

section \<open>Configuration files\<close>

lemma not_config_Nil: "\<not> is_config_file []"
  by (simp add: is_config_file_def config_patterns_def re_search_def seqs_def lits_def
      advance_def)

lemma get_config_type_cases:
  "get_config_type n \<in> {''YAML'', ''TOML'', ''JSON'', ''Environment'', ''INI'', ''General''}"
  by (simp add: get_config_type_def)

lemma config_subdir_plain:
  assumes "t \<noteq> []" "\<not> endswith t [sep]"
  shows "join3 t ''Config'' (get_config_type n) = t @ ''/Config/'' @ get_config_type n
    \<and> \<not> endswith (t @ ''/Config/'' @ get_config_type n) [sep]"
proof -
  have c: "join t ''Config'' = t @ ''/Config''"
    using assms by (simp add: join_plain startswith_def sep_def)
  have e: "\<not> endswith (t @ ''/Config'') [sep]"
    using endswith_snoc[of "t @ ''/Confi''" "CHR ''g''" sep] by (simp add: sep_def)
  have n: "t @ ''/Config'' \<noteq> []" by simp
  consider "get_config_type n = ''YAML''" | "get_config_type n = ''TOML''"
    | "get_config_type n = ''JSON''" | "get_config_type n = ''Environment''"
    | "get_config_type n = ''INI''" | "get_config_type n = ''General''"
    using get_config_type_cases[of n] by auto
  then show ?thesis
  proof cases
    case 1
    show ?thesis
      using join_plain[OF n e, of "''YAML''"]
        endswith_snoc[of "t @ ''/Config/YAM''" "CHR ''L''" sep]
      by (simp add: 1 c join3_def startswith_def sep_def)
  next
    case 2
    show ?thesis
      using join_plain[OF n e, of "''TOML''"]
        endswith_snoc[of "t @ ''/Config/TOM''" "CHR ''L''" sep]
      by (simp add: 2 c join3_def startswith_def sep_def)
  next
    case 3
    show ?thesis
      using join_plain[OF n e, of "''JSON''"]
        endswith_snoc[of "t @ ''/Config/JSO''" "CHR ''N''" sep]
      by (simp add: 3 c join3_def startswith_def sep_def)
  next
    case 4
    show ?thesis
      using join_plain[OF n e, of "''Environment''"]
        endswith_snoc[of "t @ ''/Config/Environmen''" "CHR ''t''" sep]
      by (simp add: 4 c join3_def startswith_def sep_def)
  next
    case 5
    show ?thesis
      using join_plain[OF n e, of "''INI''"]
        endswith_snoc[of "t @ ''/Config/IN''" "CHR ''I''" sep]
      by (simp add: 5 c join3_def startswith_def sep_def)
  next
    case 6
    show ?thesis
      using join_plain[OF n e, of "''General''"]
        endswith_snoc[of "t @ ''/Config/Genera''" "CHR ''l''" sep]
      by (simp add: 6 c join3_def startswith_def sep_def)
  qed
qed

lemma smart_config:
  assumes "is_config_file (basename file_path)"
  shows "smart_categorize_file plat cfg fs file_path =
           Inr (Some (join (join3 (target_dir cfg) ''Config''
                              (get_config_type (basename file_path)))
                        (basename file_path)))"
  using assms by (simp add: smart_categorize_file_def Let_def)

lemma classify_config:
  assumes "is_config_file (basename file_path)"
  shows "classify plat cfg file_path s =
           Inr (Some (join (join3 (target_dir cfg) ''Config''
                              (get_config_type (basename file_path)))
                        (basename file_path)), stats s)"
proof -
  have "basename file_path \<noteq> []" using assms not_config_Nil by auto
  then have "join (join3 (target_dir cfg) ''Config'' (get_config_type (basename file_path)))
                  (basename file_path) \<noteq> []"
    by (simp add: join_eq_Nil)
  then show ?thesis
    by (simp add: classify_def smart_config[OF assms] truthy_def)
qed

text \<open>
  Claim C3. A file whose basename matches a configuration pattern is sent to
  target root / \<open>Config\<close> / subtype / basename: \<open>smart_categorize_file\<close> returns that
  destination whatever the file system holds and whatever the project-mode flag is, and
  the classification of the walk takes it without looking at the content of the file or
  at the extension table, so the statistics are left as they were. When the target root is
  not empty and does not end in a separator, the destination is the target root followed
  by \<open>/Config/\<close>, the subtype, a separator and the basename.
\<close>

theorem config_file_destination:
  assumes "is_config_file (basename file_path)"
  shows "smart_categorize_file plat cfg fs file_path =
           Inr (Some (join (join3 (target_dir cfg) ''Config''
                              (get_config_type (basename file_path)))
                        (basename file_path)))
    \<and> smart_categorize_file plat (cfg\<lparr>project_mode := pm\<rparr>) fs file_path =
        smart_categorize_file plat cfg fs file_path
    \<and> classify plat cfg file_path s =
        Inr (Some (join (join3 (target_dir cfg) ''Config''
                           (get_config_type (basename file_path)))
                     (basename file_path)), stats s)
    \<and> (if target_dir cfg \<noteq> [] \<and> \<not> endswith (target_dir cfg) [sep]
       then smart_categorize_file plat cfg fs file_path =
              Inr (Some (target_dir cfg @ ''/Config/'' @ get_config_type (basename file_path)
                           @ ''/'' @ basename file_path))
       else True)"
proof -
  have a: "smart_categorize_file plat (cfg\<lparr>project_mode := pm\<rparr>) fs file_path =
        smart_categorize_file plat cfg fs file_path"
    by (simp add: smart_config[OF assms])
  have b: "smart_categorize_file plat cfg fs file_path =
              Inr (Some (target_dir cfg @ ''/Config/'' @ get_config_type (basename file_path)
                           @ ''/'' @ basename file_path))"
    if t: "target_dir cfg \<noteq> []" "\<not> endswith (target_dir cfg) [sep]"
  proof -
    have ne: "target_dir cfg @ ''/Config/'' @ get_config_type (basename file_path) \<noteq> []"
      using t by simp
    show ?thesis
      using config_subdir_plain[OF t, of "basename file_path"]
        join_plain[OF ne _ not_startswith_sep[OF basename_no_sep], of file_path]
      by (simp add: smart_config[OF assms] sep_def)
  qed
  show ?thesis
    using smart_config[OF assms] classify_config[OF assms] a b by simp
qed

theorem config_file_destination_witness:
  "is_config_file (basename ''/s/src/config.js'')
   \<and> smart_categorize_file example_platform (example_config True False) config_tree
       ''/s/src/config.js'' = Inr (Some ''/s/Config/General/config.js'')
   \<and> detect_file_type_from_content example_platform config_tree ''/s/src/config.js''
       = Inr (Some ''Web/React'')
   \<and> get_target_path example_platform (example_config True False) ''/s/src/config.js'' init_stats
       = Inr (Some ''/s/src/Web/JavaScript/config.js'', init_stats)"
proof -
  have h: "is_config_file (basename ''/s/src/config.js'')"
    by code_simp
  have t: "target_dir (example_config True False) = ''/s''"
    by code_simp
  have g: "get_config_type ''config.js'' = ''General''"
    by code_simp
  have b: "basename ''/s/src/config.js'' = ''config.js''"
    by code_simp
  have d: "detect_file_type_from_content example_platform config_tree ''/s/src/config.js''
       = Inr (Some ''Web/React'')"
    by code_simp
  have m: "get_target_path example_platform (example_config True False) ''/s/src/config.js''
       init_stats = Inr (Some ''/s/src/Web/JavaScript/config.js'', init_stats)"
    by code_simp
  have j: "join (join3 ''/s'' ''Config'' ''General'') ''config.js''
       = ''/s/Config/General/config.js''"
    by code_simp
  have "smart_categorize_file example_platform (example_config True False) config_tree
       ''/s/src/config.js'' = Inr (Some ''/s/Config/General/config.js'')"
    using config_file_destination[OF h, of example_platform "example_config True False"
        config_tree True "new_organizer config_tree"]
    by (simp add: t b g j)
  then show ?thesis
    using h d m by simp
qed

end
